theory Spec2Isabelle
  imports Complex_Main "HOL-Library.AList"
begin

section \<open>The delegator of the revenue-sharing model\<close>

text \<open>
  A shallow embedding of \<^verbatim>\<open>src/model/model/delegator.py\<close>: the class
  \<^verbatim>\<open>Delegator\<close> and the module function \<^verbatim>\<open>get_component_weights\<close>.

  Numbers. The Python computes with \<^verbatim>\<open>int\<close> and \<^verbatim>\<open>float\<close>; every
  quantity of the agent is modelled as a \<^typ>\<open>real\<close>, so rounding, overflow, infinities
  and NaN are outside the model. Two things Python does that the reals do not are written
  out: a division by zero raises \<^verbatim>\<open>ZeroDivisionError\<close>, and a negative base under
  \<^verbatim>\<open>** (1 / 2)\<close> yields a complex number (no exception). The second leaves the
  reals, and the model stops there with \<open>NotReal\<close>; nothing is stated about such runs.
  Python's \<^verbatim>\<open>OverflowError\<close> on a float power is not modelled either. The theorems about
  the clipped burn and the cost basis are stated so that they do not rest on exact
  arithmetic: an inequality is stated only where the comparisons the code itself makes
  give it, otherwise the equation the code computes.
  The identifier, the delegator type and the timesteps are Python \<^verbatim>\<open>int\<close>s,
  modelled as \<^typ>\<open>int\<close>.

  Effects. A method takes the object and returns the updated object with its result. An
  exception is the value \<open>Inl (Raises e)\<close>; the partly updated object it leaves behind is
  not modelled. The class attribute \<^verbatim>\<open>delegate_counter\<close> is passed to the
  constructor and returned incremented. Output written with \<^verbatim>\<open>print\<close> is not
  modelled. The random draws (\<^verbatim>\<open>random.random()\<close>, \<^verbatim>\<open>stats.expon.rvs\<close>)
  are parameters.
\<close>

subsection \<open>Errors and arithmetic that can fail\<close>

datatype error = ZeroDivisionError | AssertionError | IndexError

datatype stop = Raises error | NotReal

type_synonym 'a result = "stop + 'a"

definition bind_result :: "'a result \<Rightarrow> ('a \<Rightarrow> 'b result) \<Rightarrow> 'b result" where
  "bind_result m f = (case m of Inl e \<Rightarrow> Inl e | Inr x \<Rightarrow> f x)"

text \<open>Python's true division \<^verbatim>\<open>a / b\<close>.\<close>

definition py_div :: "real \<Rightarrow> real \<Rightarrow> real result" where
  "py_div a b = (if b = 0 then Inl (Raises ZeroDivisionError) else Inr (a / b))"

text \<open>Python's \<^verbatim>\<open>x ** (1 / 2)\<close>: the square root, complex for a negative base.\<close>

definition pow_half :: "real \<Rightarrow> real result" where
  "pow_half x = (if x < 0 then Inl NotReal else Inr (sqrt x))"

text \<open>
  Python's list index \<^verbatim>\<open>xs[i]\<close> on a list of length \<open>n\<close>: a negative index counts
  from the end, and an index outside \<open>-n \<dots> n - 1\<close> raises \<^verbatim>\<open>IndexError\<close>.
\<close>

definition py_index :: "nat \<Rightarrow> int \<Rightarrow> nat result" where
  "py_index n i =
     (let j = (if i < 0 then int n + i else i)
      in if 0 \<le> j \<and> j < int n then Inr (nat j) else Inl (Raises IndexError))"

subsection \<open>The object\<close>

record delegator =
  ident :: int
  unvested_shares_dict :: "(int \<times> real) list"
  vested_shares :: real
  revenue_token_holdings :: real
  reserve_token_holdings :: real
  expected_revenue :: real
  discount_rate :: real
  time_factor :: real
  delegator_activity_rate :: real
  minimum_shares :: real
  avg_delta_price :: real
  regression_to_mean_private_price :: real
  value_private_price :: real
  trendline_private_price :: real
  delegator_type :: int
  component_weights :: "real list"
  private_price :: real
  smoothing_factor :: real
  cost_basis :: real
  unrealized_gains_from_shares :: real
  realized_gains_from_shares :: real
  realized_gains_from_dividends :: real

text \<open>
  The field \<^verbatim>\<open>_unvested_shares\<close> is a dict from timestep to shares. It is an
  association list in insertion order; \<^verbatim>\<open>d[k] = v\<close> is \<^const>\<open>AList.update\<close>
  (replace the entry of an existing key in place, append a new key).
  The field \<^verbatim>\<open>id\<close> is named \<open>ident\<close>.
\<close>

definition unvested_shares :: "delegator \<Rightarrow> real" where
  "unvested_shares d = sum_list (map snd (unvested_shares_dict d))"

definition shares :: "delegator \<Rightarrow> real" where
  "shares d = unvested_shares d + vested_shares d"

definition is_member :: "delegator \<Rightarrow> bool" where
  "is_member d = (shares d > 0)"

definition set_shares :: "delegator \<Rightarrow> int \<Rightarrow> real \<Rightarrow> delegator" where
  "set_shares d timestep s =
     d\<lparr>unvested_shares_dict := AList.update timestep s (unvested_shares_dict d)\<rparr>"

definition will_act :: "delegator \<Rightarrow> real \<Rightarrow> bool" where
  "will_act d rng = (rng < delegator_activity_rate d)"

subsection \<open>The component weights\<close>

text \<open>
  \<^verbatim>\<open>get_component_weights(delegator_type)\<close>. The three exponential draws of the
  mixed branch are the parameter \<open>rvs\<close>. There \<^verbatim>\<open>weights / sum(weights)\<close> is a
  numpy division, which does not raise on a zero sum but yields NaN or infinity:
  \<open>NotReal\<close>.
\<close>

definition AVG_OUTSIZE_FACTOR_OF_PRICE_TYPE :: real where
  "AVG_OUTSIZE_FACTOR_OF_PRICE_TYPE = 10"

definition get_component_weights :: "int \<Rightarrow> real \<times> real \<times> real \<Rightarrow> real list result" where
  "get_component_weights dtype rvs =
     (if dtype = 0 then
        (let weights = (case rvs of (a, b, c) \<Rightarrow> [a, b, c]);
             INDEX_OF_OUTSIZED_WEIGHTED_INPUT = dtype - 1
         in bind_result (py_index 3 (INDEX_OF_OUTSIZED_WEIGHTED_INPUT - 1)) (\<lambda>i.
              let weights = weights[i := weights ! i * AVG_OUTSIZE_FACTOR_OF_PRICE_TYPE]
              in if sum_list weights = 0 then Inl NotReal
                 else Inr (map (\<lambda>w. w / sum_list weights) weights)))
      else
        bind_result (py_index 3 (dtype - 1)) (\<lambda>i. Inr ([0, 0, 0][i := 1])))"

subsection \<open>The constructor\<close>

record init_args =
  arg_shares :: real
  arg_reserve_token_holdings :: real
  arg_expected_revenue :: real
  arg_discount_rate :: real
  arg_spot_price :: real
  arg_delegator_activity_rate :: real
  arg_minimum_shares :: real
  arg_smoothing_factor :: real
  arg_delegator_type :: int

text \<open>The default values of the constructor's parameters.\<close>

definition default_args :: init_args where
  "default_args =
     \<lparr>arg_shares = 0, arg_reserve_token_holdings = 0, arg_expected_revenue = 0,
      arg_discount_rate = 9 / 10, arg_spot_price = 2, arg_delegator_activity_rate = 1 / 2,
      arg_minimum_shares = 0, arg_smoothing_factor = 9 / 10, arg_delegator_type = 0\<rparr>"

text \<open>
  \<^verbatim>\<open>Delegator.__init__\<close>, with the class counter \<open>delegate_counter\<close> before the
  call; the result is the object and the counter after it. An unset
  \<^verbatim>\<open>delegator_type\<close> is the default 0, and \<^verbatim>\<open>if delegator_type:\<close> is false
  exactly for 0.
\<close>

definition Delegator_init ::
  "init_args \<Rightarrow> int \<Rightarrow> real \<times> real \<times> real \<Rightarrow> (delegator \<times> int) result" where
  "Delegator_init a delegate_counter rvs =
     bind_result (py_div 1 (1 - arg_discount_rate a)) (\<lambda>tf.
       let self_id = delegate_counter;
           dtype = (if arg_delegator_type a \<noteq> 0 then arg_delegator_type a
                    else ((self_id - 1) mod 3) + 1)
       in bind_result (get_component_weights dtype rvs) (\<lambda>ws.
            Inr (\<lparr>ident = self_id,
                  unvested_shares_dict = [(0, arg_shares a)],
                  vested_shares = 0,
                  revenue_token_holdings = 0,
                  reserve_token_holdings = arg_reserve_token_holdings a,
                  expected_revenue = arg_expected_revenue a,
                  discount_rate = arg_discount_rate a,
                  time_factor = tf,
                  delegator_activity_rate = arg_delegator_activity_rate a,
                  minimum_shares = arg_minimum_shares a,
                  avg_delta_price = 0,
                  regression_to_mean_private_price = arg_spot_price a,
                  value_private_price = arg_spot_price a,
                  trendline_private_price = arg_spot_price a,
                  delegator_type = dtype,
                  component_weights = ws,
                  private_price = 0,
                  smoothing_factor = arg_smoothing_factor a,
                  cost_basis = 0,
                  unrealized_gains_from_shares = 0,
                  realized_gains_from_shares = 0,
                  realized_gains_from_dividends = 0\<rparr>,
                 delegate_counter + 1)))"

subsection \<open>Dividends\<close>

text \<open>
  \<^verbatim>\<open>dividend_value\<close>. The \<^verbatim>\<open>assert(supply > 0)\<close> raises
  \<^verbatim>\<open>AssertionError\<close> (the interpreter is taken to run with assertions enabled).
\<close>

definition dividend_value :: "delegator \<Rightarrow> real \<Rightarrow> real \<Rightarrow> real \<Rightarrow> (real \<times> delegator) result" where
  "dividend_value d supply owners_share reserve_to_revenue_token_exchange_rate =
     (if \<not> supply > 0 then Inl (Raises AssertionError)
      else bind_result (py_div (expected_revenue d * (1 - owners_share)) supply)
        (\<lambda>revenue_per_period_per_share.
           let reserve_asset_per_period_per_share =
                 revenue_per_period_per_share * reserve_to_revenue_token_exchange_rate;
               reserve_asset_per_share_time_corrected =
                 reserve_asset_per_period_per_share * time_factor d
           in Inr (reserve_asset_per_share_time_corrected,
                   d\<lparr>realized_gains_from_dividends :=
                        realized_gains_from_dividends d
                        + reserve_asset_per_period_per_share * shares d\<rparr>)))"

subsection \<open>Buying and selling\<close>

text \<open>Lines 126 to 130: the relative distance of the private price from the spot price.\<close>

definition pct_price_diff :: "delegator \<Rightarrow> real \<Rightarrow> real" where
  "pct_price_diff d spot_price =
     (if spot_price > 0 then \<bar>(private_price d - spot_price) / spot_price\<bar> else 0)"

text \<open>
  Lines 139 to 156, the buy branch: the created shares, the added reserve and the object
  with the new shares stored under the timestep.
\<close>

definition buy :: "delegator \<Rightarrow> real \<Rightarrow> real \<Rightarrow> int \<Rightarrow> (real \<times> real \<times> delegator) result" where
  "buy d supply reserve timestep =
     bind_result (py_div ((private_price d)\<^sup>2 * supply\<^sup>2 - 4 * reserve\<^sup>2) (4 * reserve))
       (\<lambda>sized.
          let added_reserve =
                (if sized > reserve_token_holdings d then reserve_token_holdings d else sized)
          in bind_result (py_div added_reserve reserve) (\<lambda>q.
             bind_result (pow_half (1 + q)) (\<lambda>root.
               let created_shares = supply * root - supply
               in Inr (created_shares, added_reserve,
                       d\<lparr>unvested_shares_dict :=
                            AList.update timestep created_shares (unvested_shares_dict d)\<rparr>))))"

text \<open>
  Lines 176 to 183, the two clips of the sell branch: to the vested shares, then to what
  the minimum leaves.
\<close>

definition clip_burned_shares :: "delegator \<Rightarrow> real \<Rightarrow> real" where
  "clip_burned_shares d wanted =
     (let vested_shares_count = vested_shares d;
          capped = (if wanted > vested_shares_count then vested_shares_count else wanted)
      in if vested_shares_count - capped < minimum_shares d
         then vested_shares_count - minimum_shares d else capped)"

text \<open>Lines 167 to 193, the sell branch.\<close>

definition sell :: "delegator \<Rightarrow> real \<Rightarrow> real \<Rightarrow> (real \<times> real \<times> delegator) result" where
  "sell d supply reserve =
     bind_result (py_div (2 * reserve * supply - private_price d * supply\<^sup>2) (2 * reserve))
       (\<lambda>wanted.
          let vested_shares_count = vested_shares d
          in if vested_shares_count > 0 then
               (let burned_shares = clip_burned_shares d wanted
                in bind_result (py_div burned_shares supply) (\<lambda>q.
                     let created_shares = - burned_shares;
                         reserve_paid_out = reserve - reserve * (1 - q)\<^sup>2;
                         added_reserve = - reserve_paid_out
                     in Inr (created_shares, added_reserve,
                             d\<lparr>vested_shares := vested_shares d - burned_shares\<rparr>)))
             else Inr (0, 0, d))"

text \<open>
  Lines 210 to 246, the bookkeeping after the trade; \<open>original_shares\<close> and
  \<open>original_cost_basis\<close> were read on entry (lines 127 and 128).
\<close>

definition bookkeeping ::
  "real \<Rightarrow> real \<Rightarrow> delegator \<Rightarrow> real \<Rightarrow> real \<Rightarrow> real \<Rightarrow> real
   \<Rightarrow> ((real \<times> real) \<times> delegator) result" where
  "bookkeeping original_shares original_cost_basis d supply reserve created_shares added_reserve =
     (let d1 = d\<lparr>reserve_token_holdings := reserve_token_holdings d - added_reserve\<rparr>
      in bind_result (py_div (2 * (reserve + added_reserve)) (supply + created_shares))
        (\<lambda>new_spot_price.
           if created_shares \<noteq> 0 then
             bind_result (py_div added_reserve created_shares) (\<lambda>created_shares_cost_basis.
             bind_result
               (if added_reserve > 0 then
                  bind_result
                    (py_div (original_cost_basis * original_shares
                             + created_shares_cost_basis * created_shares) (shares d1))
                    (\<lambda>cb. Inr (d1\<lparr>cost_basis := cb\<rparr>))
                else if added_reserve < 0 then
                  Inr (d1\<lparr>realized_gains_from_shares :=
                            realized_gains_from_shares d1
                            - (created_shares_cost_basis - cost_basis d1) * created_shares\<rparr>)
                else Inr d1)
               (\<lambda>d2. Inr ((created_shares, added_reserve),
                            d2\<lparr>unrealized_gains_from_shares :=
                                 shares d2 * new_spot_price - shares d2 * cost_basis d2\<rparr>)))
           else Inr ((created_shares, added_reserve), d1)))"

text \<open>
  \<^verbatim>\<open>buy_or_sell\<close>. The result is the pair \<^verbatim>\<open>(created_shares, added_reserve)\<close>
  in the order the method returns it, and the object after the call.
\<close>

definition buy_or_sell ::
  "delegator \<Rightarrow> real \<Rightarrow> real \<Rightarrow> real \<Rightarrow> real \<Rightarrow> int \<Rightarrow> ((real \<times> real) \<times> delegator) result" where
  "buy_or_sell d supply reserve spot_price mininum_required_price_pct_diff_to_act timestep =
     (let original_shares = shares d;
          original_cost_basis = cost_basis d
      in if pct_price_diff d spot_price < mininum_required_price_pct_diff_to_act
         then Inr ((0, 0), d)
         else bind_result
                (if private_price d > spot_price then buy d supply reserve timestep
                 else if private_price d < spot_price then sell d supply reserve
                 else Inr (0, 0, d))
                (\<lambda>(created_shares, added_reserve, d').
                   bookkeeping original_shares original_cost_basis d' supply reserve
                     created_shares added_reserve))"

subsection \<open>Example objects\<close>

text \<open>
  The object that \<^verbatim>\<open>Delegator()\<close> builds when the class counter is 0 (see
  \<open>Delegator_init_default\<close> below), and the same object after the caller has set a
  private price, reserve holdings, vested shares and a minimum.
\<close>

definition first_delegator :: delegator where
  "first_delegator =
     \<lparr>ident = 0, unvested_shares_dict = [(0, 0)], vested_shares = 0,
      revenue_token_holdings = 0, reserve_token_holdings = 0, expected_revenue = 0,
      discount_rate = 9 / 10, time_factor = 10, delegator_activity_rate = 1 / 2,
      minimum_shares = 0, avg_delta_price = 0, regression_to_mean_private_price = 2,
      value_private_price = 2, trendline_private_price = 2, delegator_type = 3,
      component_weights = [0, 0, 1], private_price = 0, smoothing_factor = 9 / 10,
      cost_basis = 0, unrealized_gains_from_shares = 0, realized_gains_from_shares = 0,
      realized_gains_from_dividends = 0\<rparr>"

definition trader :: "real \<Rightarrow> real \<Rightarrow> real \<Rightarrow> real \<Rightarrow> delegator" where
  "trader price holdings vested minimum =
     first_delegator\<lparr>private_price := price, reserve_token_holdings := holdings,
                      vested_shares := vested, minimum_shares := minimum\<rparr>"

text \<open>
  The object that \<^verbatim>\<open>Delegator(shares=1000, reserve_token_holdings=2000)\<close> builds when
  the class counter is 0 (see \<open>Delegator_init_granted\<close> below).
\<close>

definition granted :: delegator where
  "granted = first_delegator\<lparr>unvested_shares_dict := [(0, 1000)],
                reserve_token_holdings := 2000\<rparr>"

section \<open>Properties\<close>

subsection \<open>When the parts return\<close>

lemma bind_result_Inr_iff:
  "bind_result m f = Inr y \<longleftrightarrow> (\<exists>x. m = Inr x \<and> f x = Inr y)"
  by (cases m) (simp_all add: bind_result_def)

lemma py_div_Inr_iff: "py_div a b = Inr q \<longleftrightarrow> b \<noteq> 0 \<and> q = a / b"
  by (auto simp: py_div_def)

lemma pow_half_Inr_iff: "pow_half x = Inr r \<longleftrightarrow> 0 \<le> x \<and> r = sqrt x"
  by (auto simp: pow_half_def)

lemma buy_Inr:
  assumes "buy d supply reserve timestep = Inr (cs, ar, d')"
  shows "reserve \<noteq> 0"
    and "ar = (let sized = ((private_price d)\<^sup>2 * supply\<^sup>2 - 4 * reserve\<^sup>2) / (4 * reserve)
               in if sized > reserve_token_holdings d then reserve_token_holdings d else sized)"
    and "0 \<le> 1 + ar / reserve"
    and "cs = supply * sqrt (1 + ar / reserve) - supply"
    and "d' = d\<lparr>unvested_shares_dict := AList.update timestep cs (unvested_shares_dict d)\<rparr>"
  using assms
  by (auto simp: buy_def bind_result_Inr_iff py_div_Inr_iff pow_half_Inr_iff Let_def)


lemma bookkeeping_Inr:
  assumes "bookkeeping os ocb d supply reserve cs ar = Inr ((cs', ar'), d')"
  shows "cs' = cs" and "ar' = ar"
    and "supply + cs \<noteq> 0"
    and "reserve_token_holdings d' = reserve_token_holdings d - ar"
    and "unvested_shares_dict d' = unvested_shares_dict d"
    and "vested_shares d' = vested_shares d"
    and "minimum_shares d' = minimum_shares d"
    and "shares d' = shares d"
    and "cost_basis d' =
           (if cs \<noteq> 0 \<and> ar > 0 then (ocb * os + ar / cs * cs) / shares d' else cost_basis d)"
  using assms
  by (auto simp: bookkeeping_def bind_result_Inr_iff py_div_Inr_iff Let_def shares_def
      unvested_shares_def split: if_splits)


lemma buy_or_sell_buy_Inr:
  assumes "private_price d > spot_price"
      and "\<not> pct_price_diff d spot_price < threshold"
      and "buy_or_sell d supply reserve spot_price threshold timestep = Inr ((cs, ar), d')"
  shows "\<exists>dm. buy d supply reserve timestep = Inr (cs, ar, dm)
              \<and> bookkeeping (shares d) (cost_basis d) dm supply reserve cs ar = Inr ((cs, ar), d')"
  using assms
  by (auto simp: buy_or_sell_def bind_result_Inr_iff dest: bookkeeping_Inr(1,2))



lemma buy_or_sell_buy_unvested:
  assumes "private_price d > spot_price"
      and "threshold \<le> pct_price_diff d spot_price"
      and "buy_or_sell d supply reserve spot_price threshold timestep = Inr ((cs, ar), d')"
  shows "unvested_shares_dict d' = AList.update timestep cs (unvested_shares_dict d)"
proof -
  from assms obtain dm
    where b: "buy d supply reserve timestep = Inr (cs, ar, dm)"
      and k: "bookkeeping (shares d) (cost_basis d) dm supply reserve cs ar = Inr ((cs, ar), d')"
    using buy_or_sell_buy_Inr [of spot_price d threshold] by (fastforce simp: not_less)
  from buy_Inr(5) [OF b] bookkeeping_Inr(5) [OF k] show ?thesis by simp
qed

lemma get_component_weights_one_hot:
  assumes "dtype \<noteq> 0" and "get_component_weights dtype rvs = Inr ws"
  shows "\<exists>i<3. py_index 3 (dtype - 1) = Inr i \<and> ws = [0, 0, 0][i := 1]"
    and "get_component_weights dtype rvs' = Inr ws"
  using assms
  by (auto simp: get_component_weights_def bind_result_Inr_iff py_index_def Let_def
      split: if_splits)




subsection \<open>Calls evaluated\<close>

lemma sqrt_9_4: "sqrt (9 / 4) = 3 / 2"
  by (rule real_sqrt_unique) (simp_all add: power2_eq_square)



lemma buy_or_sell_unclipped_example:
  "\<exists>d'. buy_or_sell (trader 3 2000 0 0) 1000 1000 2 (1 / 100) 1 = Inr ((500, 1250), d')"
  by (simp add: buy_or_sell_def pct_price_diff_def trader_def first_delegator_def buy_def
      bookkeeping_def py_div_def pow_half_def bind_result_def shares_def unvested_shares_def
      Let_def sqrt_9_4)



lemma Delegator_init_granted:
  "Delegator_init (default_args\<lparr>arg_shares := 1000, arg_reserve_token_holdings := 2000\<rparr>) 0 rvs
   = Inr (granted, 1)"
  by (simp add: Delegator_init_def default_args_def first_delegator_def granted_def py_div_def
      bind_result_def get_component_weights_def py_index_def)

lemma buy_or_sell_granted_example:
  "\<exists>d'. buy_or_sell (granted\<lparr>private_price := 3\<rparr>) 1000 1000 2 (1 / 100) 0
         = Inr ((500, 1250), d') \<and> shares d' = 500"
  by (simp add: buy_or_sell_def pct_price_diff_def granted_def first_delegator_def buy_def
      bookkeeping_def py_div_def pow_half_def bind_result_def shares_def unvested_shares_def
      Let_def sqrt_9_4)

lemma Delegator_init_default: "Delegator_init default_args 0 rvs = Inr (first_delegator, 1)"
  by (simp add: Delegator_init_def default_args_def first_delegator_def py_div_def
      bind_result_def get_component_weights_def py_index_def)

subsection \<open>Dividends\<close>

text \<open>
  Claim C4. With \<open>supply > 0\<close>, \<open>dividend_value\<close> returns the per-share figure
  \<open>expected_revenue * (1 - owners_share) / supply * rate * time_factor\<close>, which does not
  contain the agent's shares, and adds to \<open>realized_gains_from_dividends\<close> the
  undiscounted per-share reserve amount times the agent's shares. Otherwise the assertion
  fails (the spec's InvalidState error is the \<open>AssertionError\<close> of the code).
\<close>

theorem dividend_value_per_share:
  "dividend_value d supply owners_share rate =
     (if supply > 0
      then Inr (expected_revenue d * (1 - owners_share) / supply * rate * time_factor d,
                d\<lparr>realized_gains_from_dividends :=
                     realized_gains_from_dividends d
                     + expected_revenue d * (1 - owners_share) / supply * rate * shares d\<rparr>)
      else Inl (Raises AssertionError))"
  by (simp add: dividend_value_def py_div_def bind_result_def)

subsection \<open>Below the threshold\<close>

text \<open>
  Claim C6. When the percent price difference (0 when \<open>spot_price \<le> 0\<close>, else
  \<open>\<bar>private_price - spot_price\<bar> / spot_price\<close>) is strictly below the threshold,
  \<open>buy_or_sell\<close> returns \<open>(0, 0)\<close> and the object is unchanged in every field.
\<close>

theorem buy_or_sell_below_threshold:
  assumes "(if spot_price \<le> 0 then 0 else \<bar>private_price d - spot_price\<bar> / spot_price)
           < threshold"
  shows "buy_or_sell d supply reserve spot_price threshold timestep = Inr ((0, 0), d)"
proof -
  have "pct_price_diff d spot_price
        = (if spot_price \<le> 0 then 0 else \<bar>private_price d - spot_price\<bar> / spot_price)"
    by (simp add: pct_price_diff_def)
  with assms show ?thesis
    by (simp add: buy_or_sell_def)
qed

theorem buy_or_sell_below_threshold_witness:
  "buy_or_sell (trader (201 / 100) 500 0 0) 1000 1000 2 (1 / 100) 1
   = Inr ((0, 0), trader (201 / 100) 500 0 0)"
  using buy_or_sell_below_threshold [of 2 "trader (201 / 100) 500 0 0" "1 / 100" 1000 1000 1]
  by (simp add: trader_def first_delegator_def)

subsection \<open>The buy branch\<close>



text \<open>
  Claim C2. For every starting state, a call that takes the buy branch and returns has
  spent at most the holdings the agent had, so the holdings it leaves are not negative.
\<close>

theorem buy_keeps_holdings_nonnegative:
  assumes "private_price d > spot_price"
      and "threshold \<le> pct_price_diff d spot_price"
      and "buy_or_sell d supply reserve spot_price threshold timestep
           = Inr ((created_shares, added_reserve), d')"
  shows "added_reserve \<le> reserve_token_holdings d
         \<and> reserve_token_holdings d' = reserve_token_holdings d - added_reserve
         \<and> 0 \<le> reserve_token_holdings d'"
proof -
  from assms obtain dm
    where b: "buy d supply reserve timestep = Inr (created_shares, added_reserve, dm)"
      and k: "bookkeeping (shares d) (cost_basis d) dm supply reserve created_shares
                added_reserve = Inr ((created_shares, added_reserve), d')"
    using buy_or_sell_buy_Inr [of spot_price d threshold] by (fastforce simp: not_less)
  from buy_Inr(2) [OF b] have le: "added_reserve \<le> reserve_token_holdings d"
    by (simp add: Let_def split: if_splits)
  from buy_Inr(5) [OF b] have "reserve_token_holdings dm = reserve_token_holdings d"
    by simp
  with bookkeeping_Inr(4) [OF k]
  have "reserve_token_holdings d' = reserve_token_holdings d - added_reserve"
    by simp
  with le show ?thesis by simp
qed

theorem buy_keeps_holdings_nonnegative_witness:
  "\<exists>d'. buy_or_sell (trader 3 2000 0 0) 1000 1000 2 (1 / 100) 1 = Inr ((500, 1250), d')
        \<and> reserve_token_holdings d' = 750"
proof -
  let ?d = "trader 3 2000 0 0"
  obtain d' where r: "buy_or_sell ?d 1000 1000 2 (1 / 100) 1 = Inr ((500, 1250), d')"
    using buy_or_sell_unclipped_example by blast
  have p: "private_price ?d > 2" and t: "1 / 100 \<le> pct_price_diff ?d 2"
    by (simp_all add: trader_def first_delegator_def pct_price_diff_def)
  from buy_keeps_holdings_nonnegative [OF p t r] have "reserve_token_holdings d' = 750"
    by (simp add: trader_def first_delegator_def)
  with r show ?thesis by blast
qed

subsection \<open>The sell branch\<close>




subsection \<open>The entry of the timestep\<close>

text \<open>
  Claim C10. A buy at a timestep sets the entry of the unvested shares for that timestep to
  the created shares, whatever was stored there. For an agent constructed with initial
  shares, which the constructor stores under timestep 0, a buy at timestep 0 replaces the
  grant, and the agent's shares can be strictly fewer after the buy than before.
\<close>

theorem buy_overwrites_timestep:
  "(private_price d > spot_price \<and> threshold \<le> pct_price_diff d spot_price
    \<and> buy_or_sell d supply reserve spot_price threshold timestep
        = Inr ((created_shares, added_reserve), d')
    \<longrightarrow> unvested_shares_dict d' = AList.update timestep created_shares (unvested_shares_dict d)
        \<and> map_of (unvested_shares_dict d') timestep = Some created_shares)
   \<and> (\<exists>a c rvs d0 c' p s r sp th cs ar d1.
         0 < arg_shares a \<and> Delegator_init a c rvs = Inr (d0, c')
         \<and> private_price (d0\<lparr>private_price := p\<rparr>) > sp
         \<and> th \<le> pct_price_diff (d0\<lparr>private_price := p\<rparr>) sp
         \<and> buy_or_sell (d0\<lparr>private_price := p\<rparr>) s r sp th 0 = Inr ((cs, ar), d1)
         \<and> shares d1 < shares (d0\<lparr>private_price := p\<rparr>))"
proof (intro conjI impI)
  assume a: "private_price d > spot_price \<and> threshold \<le> pct_price_diff d spot_price
    \<and> buy_or_sell d supply reserve spot_price threshold timestep
        = Inr ((created_shares, added_reserve), d')"
  then show u: "unvested_shares_dict d'
             = AList.update timestep created_shares (unvested_shares_dict d)"
    using buy_or_sell_buy_unvested by blast
  show "map_of (unvested_shares_dict d') timestep = Some created_shares"
    by (simp add: u update_conv')
next
  obtain d1 where r: "buy_or_sell (granted\<lparr>private_price := 3\<rparr>) 1000 1000 2 (1 / 100) 0
         = Inr ((500, 1250), d1)" and s: "shares d1 = 500"
    using buy_or_sell_granted_example by blast
  let ?a = "default_args\<lparr>arg_shares := 1000, arg_reserve_token_holdings := 2000\<rparr>"
  have "0 < arg_shares ?a" by simp
  moreover have "Delegator_init ?a 0 (1, 1, 1) = Inr (granted, 1)"
    by (rule Delegator_init_granted)
  moreover have "private_price (granted\<lparr>private_price := 3\<rparr>) > 2" by simp
  moreover have "1 / 100 \<le> pct_price_diff (granted\<lparr>private_price := 3\<rparr>) 2"
    by (simp add: pct_price_diff_def)
  moreover have "shares d1 < shares (granted\<lparr>private_price := 3\<rparr>)"
  proof -
    have "shares (granted\<lparr>private_price := 3\<rparr>) = 1000"
      by (simp add: granted_def first_delegator_def shares_def unvested_shares_def)
    with s show ?thesis by simp
  qed
  ultimately show "\<exists>a c rvs d0 c' p s r sp th cs ar d1.
         0 < arg_shares a \<and> Delegator_init a c rvs = Inr (d0, c')
         \<and> private_price (d0\<lparr>private_price := p\<rparr>) > sp
         \<and> th \<le> pct_price_diff (d0\<lparr>private_price := p\<rparr>) sp
         \<and> buy_or_sell (d0\<lparr>private_price := p\<rparr>) s r sp th 0 = Inr ((cs, ar), d1)
         \<and> shares d1 < shares (d0\<lparr>private_price := p\<rparr>)"
    using r by blast
qed

theorem buy_overwrites_timestep_witness:
  "\<exists>d'. buy_or_sell (granted\<lparr>private_price := 3\<rparr>) 1000 1000 2 (1 / 100) 0
         = Inr ((500, 1250), d')
        \<and> unvested_shares_dict (granted\<lparr>private_price := 3\<rparr>) = [(0, 1000)]
        \<and> unvested_shares_dict d' = [(0, 500)]
        \<and> shares (granted\<lparr>private_price := 3\<rparr>) = 1000 \<and> shares d' = 500"
proof -
  let ?d = "granted\<lparr>private_price := 3\<rparr>"
  obtain d' where r: "buy_or_sell ?d 1000 1000 2 (1 / 100) 0 = Inr ((500, 1250), d')"
    and s: "shares d' = 500"
    using buy_or_sell_granted_example by blast
  have p: "private_price ?d > 2" and t: "1 / 100 \<le> pct_price_diff ?d 2"
    by (simp_all add: granted_def first_delegator_def pct_price_diff_def)
  from buy_overwrites_timestep [of 2 ?d "1 / 100" 1000 1000 0 500 1250 d'] p t r
  have "unvested_shares_dict d' = [(0, 500)]"
    by (simp add: granted_def first_delegator_def)
  moreover have "shares ?d = 1000" and "unvested_shares_dict ?d = [(0, 1000)]"
    by (simp_all add: granted_def first_delegator_def shares_def unvested_shares_def)
  ultimately show ?thesis using r s by blast
qed

subsection \<open>The cost basis\<close>




subsection \<open>The constructor\<close>

text \<open>
  Claim C8, as stated, fails: the first object (counter 0) built without a delegator type
  gets type 3, and \<open>0 mod 3 + 1 = 1\<close>.
\<close>

theorem init_type_rotation_counterexample:
  "arg_delegator_type default_args = 0
   \<and> Delegator_init default_args 0 (1, 1, 1) = Inr (first_delegator, 1)
   \<and> ident first_delegator = 0
   \<and> delegator_type first_delegator = 3
   \<and> delegator_type first_delegator \<noteq> ident first_delegator mod 3 + 1"
  by (simp add: Delegator_init_default) (simp add: default_args_def first_delegator_def)

text \<open>
  Claim C8, amended. An agent constructed with the delegator type 0 or unset gets the type
  \<open>((id - 1) mod 3) + 1\<close>, where \<open>id\<close> is the value of the class counter at the call.
\<close>

theorem init_type_rotation:
  assumes "arg_delegator_type a = 0"
      and "Delegator_init a delegate_counter rvs = Inr (d, delegate_counter')"
  shows "ident d = delegate_counter
         \<and> delegator_type d = (ident d - 1) mod 3 + 1
         \<and> delegate_counter' = delegate_counter + 1"
  using assms
  by (auto simp: Delegator_init_def bind_result_Inr_iff Let_def)

theorem init_type_rotation_witness:
  "\<exists>d. Delegator_init default_args 1 (1, 1, 1) = Inr (d, 2) \<and> ident d = 1 \<and> delegator_type d = 1"
proof -
  obtain d c where r: "Delegator_init default_args 1 (1, 1, 1) = Inr (d, c)"
    by (simp add: Delegator_init_def default_args_def py_div_def bind_result_def
        get_component_weights_def py_index_def)
  have z: "arg_delegator_type default_args = 0" by (simp add: default_args_def)
  from init_type_rotation [OF z r] r show ?thesis by simp
qed

text \<open>
  Claim C9. Every constructed object has a nonzero delegator type, and its component weights
  are the one-hot vector with the 1 at the Python index \<open>delegator_type - 1\<close>; for a type
  given as 0 or unset the type is 1, 2 or 3 and the 1 is at position \<open>delegator_type - 1\<close>.
  The construction does not depend on the exponential draws: the mixed branch of
  \<open>get_component_weights\<close> is not reached.
\<close>

theorem init_weights_one_hot:
  assumes "Delegator_init a delegate_counter rvs = Inr (d, delegate_counter')"
  shows "delegator_type d \<noteq> 0
         \<and> (\<exists>i<3. py_index 3 (delegator_type d - 1) = Inr i
                  \<and> component_weights d = [0, 0, 0][i := 1])
         \<and> (arg_delegator_type a = 0 \<longrightarrow>
              delegator_type d \<in> {1, 2, 3}
              \<and> component_weights d = [0, 0, 0][nat (delegator_type d - 1) := 1])
         \<and> Delegator_init a delegate_counter rvs' = Inr (d, delegate_counter')"
proof -
  define dtype where "dtype = (if arg_delegator_type a \<noteq> 0 then arg_delegator_type a
                    else ((delegate_counter - 1) mod 3) + 1)"
  have nz: "dtype \<noteq> 0"
    unfolding dtype_def by (simp split: if_splits) presburger
  have range: "arg_delegator_type a = 0 \<Longrightarrow> dtype \<in> {1, 2, 3}"
    unfolding dtype_def by (simp split: if_splits) presburger
  from assms obtain tf ws where tf: "py_div 1 (1 - arg_discount_rate a) = Inr tf"
    and ws: "get_component_weights dtype rvs = Inr ws"
    and d: "delegator_type d = dtype" "component_weights d = ws"
    by (auto simp: Delegator_init_def bind_result_Inr_iff Let_def dtype_def)
  from get_component_weights_one_hot [OF nz ws]
  obtain i where i: "i < 3" "py_index 3 (dtype - 1) = Inr i" "ws = [0, 0, 0][i := 1]"
    and same: "get_component_weights dtype rvs' = Inr ws"
    by blast
  have "Delegator_init a delegate_counter rvs' = Delegator_init a delegate_counter rvs"
    using ws same by (simp add: Delegator_init_def Let_def dtype_def [symmetric])
  moreover have "arg_delegator_type a = 0 \<longrightarrow>
              delegator_type d \<in> {1, 2, 3}
              \<and> component_weights d = [0, 0, 0][nat (delegator_type d - 1) := 1]"
  proof
    assume "arg_delegator_type a = 0"
    from range [OF this] i(2,3) d
    show "delegator_type d \<in> {1, 2, 3}
              \<and> component_weights d = [0, 0, 0][nat (delegator_type d - 1) := 1]"
      by (auto simp: py_index_def)
  qed
  ultimately show ?thesis using nz i d assms by auto
qed

theorem init_weights_one_hot_witness:
  "Delegator_init default_args 0 (1, 2, 3) = Inr (first_delegator, 1)
   \<and> Delegator_init default_args 0 (0, 0, 0) = Inr (first_delegator, 1)
   \<and> delegator_type first_delegator = 3
   \<and> component_weights first_delegator = [0, 0, 1]"
proof -
  have r: "Delegator_init default_args 0 (1, 2, 3) = Inr (first_delegator, 1)"
    by (rule Delegator_init_default)
  from init_weights_one_hot [OF r, of "(0, 0, 0)"] r show ?thesis
    by (simp add: first_delegator_def)
qed

subsection \<open>Errors\<close>

text \<open>
  Claim C7 says that \<open>buy_or_sell\<close> never raises. The code raises
  \<^verbatim>\<open>ZeroDivisionError\<close> in three calls: an agent that holds the whole supply as vested
  shares and has the private price 0 (the value the constructor sets) sells all of it, and
  the new spot price of line 213 divides by \<open>supply + created_shares = 0\<close>; a buy from a
  pool with no reserve divides by \<open>4 * reserve = 0\<close> on line 150; and a call that trades
  nothing in a pool with no supply divides by the supply on line 213. The divisions by
  \<open>spot_price\<close> (line 129) and by \<open>created_shares\<close> (line 215) of the same method are
  guarded.
\<close>

theorem buy_or_sell_raises_on_zero_divisor:
  "buy_or_sell (trader 0 0 100 0) 100 100 2 (1 / 100) 1 = Inl (Raises ZeroDivisionError)
   \<and> buy_or_sell (trader 3 500 0 0) 1000 0 0 0 1 = Inl (Raises ZeroDivisionError)
   \<and> buy_or_sell (trader 2 0 0 0) 0 0 2 0 1 = Inl (Raises ZeroDivisionError)"
  by (simp add: buy_or_sell_def pct_price_diff_def trader_def first_delegator_def sell_def
      buy_def clip_burned_shares_def bookkeeping_def py_div_def bind_result_def Let_def)

end
